theory Spec2Isabelle
  imports Complex_Main
begin

section \<open>Matching a sky position against elliptical galaxies\<close>

text \<open>
  The program is a notebook with two numerical functions, \<open>in_ellipse\<close> and
  \<open>great_circle_distance\<close>, and a loop that filters a list of galaxy records with
  them. This theory embeds the three of them and proves what their specification says.
\<close>

subsection \<open>Floating-point values\<close>

text \<open>
  A Python float is modelled as an exact real number or the not-a-number marker: the
  arithmetic on numbers is the arithmetic of the reals (no rounding, no overflow, no
  infinities), and \<open>NaN\<close> is absorbing, as in IEEE 754. Every comparison with
  \<open>NaN\<close> is false.

  What the program decides by its control flow (the early return, the strict comparison
  of \<open>t63\<close> with zero, the substitution of defaults, the filtering and the assignment
  into the store) is the same under this reading and in 64-bit floating point. A
  statement about the sign of \<open>t63\<close> near zero, or about the last digits of a distance,
  is a statement about exact arithmetic only.
\<close>

datatype fval = Num real | NaN

instantiation fval :: "{plus, minus, times, uminus, inverse, ord}"
begin

fun plus_fval :: "fval \<Rightarrow> fval \<Rightarrow> fval" where
  "plus_fval (Num x) (Num y) = Num (x + y)"
| "plus_fval _ _ = NaN"

fun minus_fval :: "fval \<Rightarrow> fval \<Rightarrow> fval" where
  "minus_fval (Num x) (Num y) = Num (x - y)"
| "minus_fval _ _ = NaN"

fun times_fval :: "fval \<Rightarrow> fval \<Rightarrow> fval" where
  "times_fval (Num x) (Num y) = Num (x * y)"
| "times_fval _ _ = NaN"

fun uminus_fval :: "fval \<Rightarrow> fval" where
  "uminus_fval (Num x) = Num (- x)"
| "uminus_fval NaN = NaN"

text \<open>The program divides by the constants 180 and \<open>pi\<close> only; a zero divisor
  (an infinity or \<open>NaN\<close> in IEEE 754) is outside the model and yields \<open>NaN\<close>.\<close>

fun divide_fval :: "fval \<Rightarrow> fval \<Rightarrow> fval" where
  "divide_fval (Num x) (Num y) = (if y = 0 then NaN else Num (x / y))"
| "divide_fval _ _ = NaN"

definition inverse_fval :: "fval \<Rightarrow> fval" where
  "inverse_fval x = divide (Num 1) x"

fun less_fval :: "fval \<Rightarrow> fval \<Rightarrow> bool" where
  "less_fval (Num x) (Num y) = (x < y)"
| "less_fval _ _ = False"

fun less_eq_fval :: "fval \<Rightarrow> fval \<Rightarrow> bool" where
  "less_eq_fval (Num x) (Num y) = (x \<le> y)"
| "less_eq_fval _ _ = False"

instance ..

end

text \<open>The numpy functions the program calls, lifted the same way. \<open>np.sqrt\<close> of a
  negative number is \<open>NaN\<close>.\<close>

fun np_cos :: "fval \<Rightarrow> fval" where
  "np_cos (Num x) = Num (cos x)"
| "np_cos NaN = NaN"

fun np_sin :: "fval \<Rightarrow> fval" where
  "np_sin (Num x) = Num (sin x)"
| "np_sin NaN = NaN"

fun np_sqrt :: "fval \<Rightarrow> fval" where
  "np_sqrt (Num x) = (if x < 0 then NaN else Num (sqrt x))"
| "np_sqrt NaN = NaN"

fun np_abs :: "fval \<Rightarrow> fval" where
  "np_abs (Num x) = Num \<bar>x\<bar>"
| "np_abs NaN = NaN"

fun np_isnan :: "fval \<Rightarrow> bool" where
  "np_isnan (Num x) = False"
| "np_isnan NaN = True"

definition np_pi :: fval where
  "np_pi = Num pi"

text \<open>\<open>np.arctan2 y x\<close>: the angle of the point \<open>(x, y)\<close> in \<open>(-pi, pi]\<close>, and 0 at
  the origin.\<close>

definition arctan2 :: "real \<Rightarrow> real \<Rightarrow> real" where
  "arctan2 y x =
     (if 0 < x then arctan (y / x)
      else if x < 0 then (if 0 \<le> y then arctan (y / x) + pi else arctan (y / x) - pi)
      else if 0 < y then pi / 2
      else if y < 0 then - (pi / 2)
      else 0)"

fun np_arctan2 :: "fval \<Rightarrow> fval \<Rightarrow> fval" where
  "np_arctan2 (Num y) (Num x) = Num (arctan2 y x)"
| "np_arctan2 _ _ = NaN"

text \<open>\<open>x ** 2\<close>.\<close>

definition pow2 :: "fval \<Rightarrow> fval" where
  "pow2 x = x * x"

text \<open>\<open>round(x, 2)\<close>: the nearest multiple of 0.01, a tie going to the even one;
  \<open>round(nan, 2)\<close> is \<open>nan\<close>.\<close>

definition round_half_even :: "real \<Rightarrow> int" where
  "round_half_even x =
     (let f = \<lfloor>x\<rfloor> in
      if x - of_int f < 1 / 2 then f
      else if 1 / 2 < x - of_int f then f + 1
      else if even f then f else f + 1)"

fun round2 :: "fval \<Rightarrow> fval" where
  "round2 (Num x) = Num (of_int (round_half_even (x * 100)) / 100)"
| "round2 NaN = NaN"

subsection \<open>The point-in-ellipse test\<close>

text \<open>
  \<open>in_ellipse\<close>, statement by statement. All angles are in decimal degrees. The
  function returns early with \<open>False\<close> when the point is on the far hemisphere, and
  otherwise returns \<open>t63 > 0\<close>.
\<close>

definition in_ellipse ::
  "fval \<Rightarrow> fval \<Rightarrow> fval \<Rightarrow> fval \<Rightarrow> fval \<Rightarrow> fval \<Rightarrow> fval \<Rightarrow> bool" where
  "in_ellipse alpha delta0 alpha1 delta01 d0 axis_ratio PA0 =
     (let DEGRA = np_pi / Num 180;
          d_alpha = (alpha1 - alpha) * DEGRA;
          delta1 = delta01 * DEGRA;
          delta = delta0 * DEGRA;
          PA = PA0 * DEGRA;
          d = d0 * DEGRA;
          e = np_sqrt (Num 1 - axis_ratio * axis_ratio);
          t1 = np_cos d_alpha;
          t22 = np_sin d_alpha;
          t3 = np_cos delta1;
          t32 = np_sin delta1;
          t6 = np_cos delta;
          t26 = np_sin delta;
          t9 = np_cos d;
          t55 = np_sin d
      in if t3 * t6 * t1 + t32 * t26 < Num 0 then False
         else
           let t2 = t1 * t1;
               t4 = t3 * t3;
               t5 = t2 * t4;
               t7 = t6 * t6;
               t8 = t5 * t7;
               t10 = t9 * t9;
               t11 = t7 * t10;
               t13 = np_cos PA;
               t14 = t13 * t13;
               t15 = t14 * t10;
               t18 = t7 * t14;
               t19 = t18 * t10;
               t24 = np_sin PA;
               t31 = t1 * t3;
               t36 = Num 2 * t31 * t32 * t26 * t6;
               t37 = t31 * t32;
               t38 = t26 * t6;
               t45 = t4 * t10;
               t56 = t55 * t55;
               t57 = t4 * t7;
               t60 = - t8 + t5 * t11 + Num 2 * t5 * t15 - t5 * t19
                     - Num 2 * t1 * t4 * t22 * t10 * t24 * t13 * t26 - t36
                     + Num 2 * t37 * t38 * t10 - Num 2 * t37 * t38 * t15 - t45 * t14 - t45 * t2
                     + Num 2 * t22 * t3 * t32 * t6 * t24 * t10 * t13 - t56 + t7 - t11 + t4 - t57
                     + t57 * t10 + t19 - t18 * t45;
               t61 = e * e;
               t63 = t60 * t61 + t8 + t57 - t4 - t7 + t56 + t36
           in t63 > Num 0)"

text \<open>
  The two quantities \<open>in_ellipse\<close> decides on, as functions of its arguments: the value
  tested by the early return, and the polynomial value \<open>t63\<close> (what the statements
  after the early return compute, whether or not the function gets there).
\<close>

definition hemisphere_proxy :: "fval \<Rightarrow> fval \<Rightarrow> fval \<Rightarrow> fval \<Rightarrow> fval" where
  "hemisphere_proxy alpha delta0 alpha1 delta01 =
     (let DEGRA = np_pi / Num 180;
          d_alpha = (alpha1 - alpha) * DEGRA;
          delta1 = delta01 * DEGRA;
          delta = delta0 * DEGRA;
          t1 = np_cos d_alpha;
          t3 = np_cos delta1;
          t32 = np_sin delta1;
          t6 = np_cos delta;
          t26 = np_sin delta
      in t3 * t6 * t1 + t32 * t26)"

definition ellipse_t63 ::
  "fval \<Rightarrow> fval \<Rightarrow> fval \<Rightarrow> fval \<Rightarrow> fval \<Rightarrow> fval \<Rightarrow> fval \<Rightarrow> fval" where
  "ellipse_t63 alpha delta0 alpha1 delta01 d0 axis_ratio PA0 =
     (let DEGRA = np_pi / Num 180;
          d_alpha = (alpha1 - alpha) * DEGRA;
          delta1 = delta01 * DEGRA;
          delta = delta0 * DEGRA;
          PA = PA0 * DEGRA;
          d = d0 * DEGRA;
          e = np_sqrt (Num 1 - axis_ratio * axis_ratio);
          t1 = np_cos d_alpha;
          t22 = np_sin d_alpha;
          t3 = np_cos delta1;
          t32 = np_sin delta1;
          t6 = np_cos delta;
          t26 = np_sin delta;
          t9 = np_cos d;
          t55 = np_sin d;
          t2 = t1 * t1;
          t4 = t3 * t3;
          t5 = t2 * t4;
          t7 = t6 * t6;
          t8 = t5 * t7;
          t10 = t9 * t9;
          t11 = t7 * t10;
          t13 = np_cos PA;
          t14 = t13 * t13;
          t15 = t14 * t10;
          t18 = t7 * t14;
          t19 = t18 * t10;
          t24 = np_sin PA;
          t31 = t1 * t3;
          t36 = Num 2 * t31 * t32 * t26 * t6;
          t37 = t31 * t32;
          t38 = t26 * t6;
          t45 = t4 * t10;
          t56 = t55 * t55;
          t57 = t4 * t7;
          t60 = - t8 + t5 * t11 + Num 2 * t5 * t15 - t5 * t19
                - Num 2 * t1 * t4 * t22 * t10 * t24 * t13 * t26 - t36
                + Num 2 * t37 * t38 * t10 - Num 2 * t37 * t38 * t15 - t45 * t14 - t45 * t2
                + Num 2 * t22 * t3 * t32 * t6 * t24 * t10 * t13 - t56 + t7 - t11 + t4 - t57
                + t57 * t10 + t19 - t18 * t45;
          t61 = e * e
      in t60 * t61 + t8 + t57 - t4 - t7 + t56 + t36)"

subsection \<open>The great-circle distance\<close>

definition great_circle_distance :: "fval \<Rightarrow> fval \<Rightarrow> fval \<Rightarrow> fval \<Rightarrow> fval" where
  "great_circle_distance ra1_deg dec1_deg ra2_deg dec2_deg =
     (let DEGRA = np_pi / Num 180;
          ra1 = ra1_deg * DEGRA;
          dec1 = dec1_deg * DEGRA;
          ra2 = ra2_deg * DEGRA;
          dec2 = dec2_deg * DEGRA;
          delta_ra = np_abs (ra2 - ra1);
          distance =
            np_arctan2
              (np_sqrt (pow2 (np_cos dec2 * np_sin delta_ra)
                        + pow2 (np_cos dec1 * np_sin dec2
                                - np_sin dec1 * np_cos dec2 * np_cos delta_ra)))
              (np_sin dec1 * np_sin dec2 + np_cos dec1 * np_cos dec2 * np_cos delta_ra)
      in distance * Num 180 / np_pi)"

subsection \<open>The matching loop\<close>

text \<open>
  A galaxy is a dictionary with the keys the database query projects; the loop reads
  \<open>ra\<close>, \<open>dec\<close>, \<open>a\<close>, \<open>b2a\<close>, \<open>pa\<close>, \<open>name\<close> and \<open>coordinates\<close>. The record
  type fixes these keys, so a dictionary that lacks one (a \<open>KeyError\<close> in the program)
  is not a value of the model. \<open>None\<close> is a possible value of the fields the loop
  passes through.

  The value under \<open>coordinates\<close> is a nested dictionary, an object of its own. The
  loop binds \<open>match = galaxy\<close> and assigns to \<open>match['coordinates']['distance_arcsec']\<close>,
  so what it does depends on which objects are shared: galaxies and nested dictionaries
  live in a store, and lists hold references.
\<close>

type_synonym ref = nat

datatype cval = CStrs "string list" | CNum fval

type_synonym coords = "string \<rightharpoonup> cval"

record galaxy =
  g_id :: int
  g_name :: string
  g_ra :: fval
  g_dec :: fval
  g_a :: fval
  g_b2a :: fval
  g_pa :: fval
  g_z :: "fval option"
  g_sfr_fuv :: "fval option"
  g_mstar :: "fval option"
  g_sfr_ha :: "fval option"
  g_coordinates :: ref

record heap =
  objs :: "ref \<Rightarrow> galaxy"
  nested :: "ref \<Rightarrow> coords"

text \<open>The test of one galaxy: the statements of the loop body up to the call of
  \<open>in_ellipse\<close>. \<open>ra\<close>, \<open>dec\<close> (the position of the event) and \<open>size_margin\<close> are
  globals of the notebook.\<close>

definition in_galaxy :: "fval \<Rightarrow> fval \<Rightarrow> fval \<Rightarrow> galaxy \<Rightarrow> bool" where
  "in_galaxy ra dec size_margin galaxy =
     (let alpha1 = g_ra galaxy;
          delta01 = g_dec galaxy;
          d0 = g_a galaxy;
          axis_ratio = g_b2a galaxy;
          PA0 = g_pa galaxy;
          d0 = (if d0 < Num (- 990) \<or> np_isnan d0 then Num 0.0265889 else d0);
          axis_ratio =
            (if axis_ratio < Num (- 990) \<or> np_isnan axis_ratio then Num 0.61 else axis_ratio);
          PA0 = (if PA0 < Num (- 990) \<or> np_isnan PA0 then Num 86 else PA0)
      in in_ellipse ra dec alpha1 delta01 (size_margin * d0) axis_ratio PA0)"

text \<open>One iteration, on the store and the list \<open>matches\<close>. The reference appended to
  \<open>matches\<close> is the reference taken from the input list, and the assignment updates the
  nested dictionary that the galaxy refers to. (The \<open>print\<close> of the name is left out.)\<close>

definition match_step ::
  "fval \<Rightarrow> fval \<Rightarrow> fval \<Rightarrow> heap \<times> ref list \<Rightarrow> ref \<Rightarrow> heap \<times> ref list" where
  "match_step ra dec size_margin s galaxy =
     (let h = fst s;
          matches = snd s;
          alpha1 = g_ra (objs h galaxy);
          delta01 = g_dec (objs h galaxy)
      in if in_galaxy ra dec size_margin (objs h galaxy) then
           let match = galaxy;
               distance_arcsec =
                 round2 (great_circle_distance ra dec alpha1 delta01 * Num 3600);
               c = g_coordinates (objs h match)
           in (h\<lparr>nested := (nested h)(c := (nested h c)(''distance_arcsec'' \<mapsto> CNum distance_arcsec))\<rparr>,
               matches @ [match])
         else (h, matches))"

text \<open>The loop over the candidates (in the notebook the list \<open>galaxies + [M31, M33]\<close>),
  starting from \<open>matches = []\<close>. It returns the store and \<open>matches\<close> as the loop leaves
  them.\<close>

definition matching_loop ::
  "fval \<Rightarrow> fval \<Rightarrow> fval \<Rightarrow> heap \<Rightarrow> ref list \<Rightarrow> heap \<times> ref list" where
  "matching_loop ra dec size_margin h galaxies =
     foldl (match_step ra dec size_margin) (h, []) galaxies"

subsection \<open>The words of the specification\<close>

text \<open>A shape field is missing when it is not a number or lies below \<open>-990\<close>; a missing
  field is replaced by the default of its kind, any other is kept.\<close>

definition missing :: "fval \<Rightarrow> bool" where
  "missing v = (case v of NaN \<Rightarrow> True | Num x \<Rightarrow> x < - 990)"

definition with_default :: "real \<Rightarrow> fval \<Rightarrow> fval" where
  "with_default dflt v = (if missing v then Num dflt else v)"

text \<open>Degrees to radians, and two quantities of spherical geometry in which the
  polynomial of \<open>in_ellipse\<close> has a closed form: the cosine of the separation between the
  point \<open>(alpha, delta0)\<close> and the centre \<open>(alpha1, delta01)\<close>, and the offset of the
  centre from the point across the direction \<open>PA0\<close>.\<close>

definition rad :: "real \<Rightarrow> real" where
  "rad x = x * (pi / 180)"

definition cos_sep :: "real \<Rightarrow> real \<Rightarrow> real \<Rightarrow> real \<Rightarrow> real" where
  "cos_sep alpha delta0 alpha1 delta01 =
     cos (rad delta01) * cos (rad delta0) * cos (rad (alpha1 - alpha))
     + sin (rad delta01) * sin (rad delta0)"

definition cross_offset :: "real \<Rightarrow> real \<Rightarrow> real \<Rightarrow> real \<Rightarrow> real \<Rightarrow> real" where
  "cross_offset alpha delta0 alpha1 delta01 PA0 =
     cos (rad delta01) * sin (rad (alpha1 - alpha)) * cos (rad PA0)
     - (cos (rad delta0) * sin (rad delta01)
        - sin (rad delta0) * cos (rad delta01) * cos (rad (alpha1 - alpha))) * sin (rad PA0)"

text \<open>The polynomial of \<open>in_ellipse\<close> over the reals, in the sines and cosines it is
  built from and \<open>t61\<close>.\<close>

definition t63_poly ::
  "real \<Rightarrow> real \<Rightarrow> real \<Rightarrow> real \<Rightarrow> real \<Rightarrow> real \<Rightarrow> real \<Rightarrow> real \<Rightarrow> real \<Rightarrow> real \<Rightarrow> real \<Rightarrow> real" where
  "t63_poly t1 t22 t3 t32 t6 t26 t9 t55 t13 t24 t61 =
     (let t2 = t1 * t1;
          t4 = t3 * t3;
          t5 = t2 * t4;
          t7 = t6 * t6;
          t8 = t5 * t7;
          t10 = t9 * t9;
          t11 = t7 * t10;
          t14 = t13 * t13;
          t15 = t14 * t10;
          t18 = t7 * t14;
          t19 = t18 * t10;
          t31 = t1 * t3;
          t36 = 2 * t31 * t32 * t26 * t6;
          t37 = t31 * t32;
          t38 = t26 * t6;
          t45 = t4 * t10;
          t56 = t55 * t55;
          t57 = t4 * t7;
          t60 = - t8 + t5 * t11 + 2 * t5 * t15 - t5 * t19
                - 2 * t1 * t4 * t22 * t10 * t24 * t13 * t26 - t36
                + 2 * t37 * t38 * t10 - 2 * t37 * t38 * t15 - t45 * t14 - t45 * t2
                + 2 * t22 * t3 * t32 * t6 * t24 * t10 * t13 - t56 + t7 - t11 + t4 - t57
                + t57 * t10 + t19 - t18 * t45
      in t60 * t61 + t8 + t57 - t4 - t7 + t56 + t36)"

subsection \<open>Sample data\<close>

text \<open>A galaxy without shape information, as the catalogue lists them, a galaxy with a
  shape on the opposite side of the sky, and a store: reference 0 holds the first, every
  other reference the second, each with a nested dictionary of its own.\<close>

definition sample_galaxy :: galaxy where
  "sample_galaxy =
     \<lparr>g_id = 283982, g_name = ''CGCG 146-027 NED01'', g_ra = Num 107, g_dec = Num 31,
      g_a = NaN, g_b2a = NaN, g_pa = Num (- 999), g_z = Some (Num 0.0165010002),
      g_sfr_fuv = Some (Num 0.18982003331227015), g_mstar = Some (Num 3456119639.4093933),
      g_sfr_ha = Some (Num 0), g_coordinates = 0\<rparr>"

definition opposite_galaxy :: galaxy where
  "opposite_galaxy =
     \<lparr>g_id = 596900, g_name = ''PGC2557'', g_ra = Num 287, g_dec = Num (- 31),
      g_a = Num 6.35156, g_b2a = Num 0.32, g_pa = Num 35, g_z = Some (Num (- 0.00100100006)),
      g_sfr_fuv = None, g_mstar = Some (Num 253816876.412914), g_sfr_ha = Some (Num 0),
      g_coordinates = 1\<rparr>"

definition sample_heap :: heap where
  "sample_heap =
     \<lparr>objs = (\<lambda>r. if r = 0 then sample_galaxy else opposite_galaxy\<lparr>g_coordinates := r\<rparr>),
      nested = (\<lambda>r. [''radec_str'' \<mapsto> CStrs [''07:07:59.3800'', ''31:39:49.900'']])\<rparr>"

section \<open>Properties of the two functions\<close>

subsection \<open>Arithmetic on numbers\<close>

lemma DEGRA_Num: "np_pi / Num 180 = Num (pi / 180)"
  by (simp add: np_pi_def)

lemma sin_sq: "sin x * sin x = 1 - cos x * cos x" for x :: real
  using sin_cos_squared_add [of x] by (simp add: power2_eq_square)

text \<open>\<open>NaN\<close> absorbs every operation and fails every comparison.\<close>

lemma NaN_plus [simp]: "NaN + x = NaN" "x + NaN = NaN" for x :: fval
  by (cases x; simp)+

lemma NaN_minus [simp]: "NaN - x = NaN" "x - NaN = NaN" for x :: fval
  by (cases x; simp)+

lemma NaN_times [simp]: "NaN * x = NaN" "x * NaN = NaN" for x :: fval
  by (cases x; simp)+

lemma NaN_divide [simp]: "NaN / x = NaN" "x / NaN = NaN" for x :: fval
  by (cases x; simp)+

lemma NaN_less [simp]: "\<not> NaN < x" "\<not> x < NaN" for x :: fval
  by (cases x; simp)+


lemma NaN_arctan2 [simp]: "np_arctan2 NaN x = NaN" "np_arctan2 x NaN = NaN"
  by (cases x; simp)+

subsection \<open>What \<open>in_ellipse\<close> decides on\<close>

lemma in_ellipse_decides:
  "in_ellipse alpha delta0 alpha1 delta01 d0 axis_ratio PA0 =
     (\<not> hemisphere_proxy alpha delta0 alpha1 delta01 < Num 0
      \<and> ellipse_t63 alpha delta0 alpha1 delta01 d0 axis_ratio PA0 > Num 0)"
  unfolding in_ellipse_def hemisphere_proxy_def ellipse_t63_def Let_def
  by (rule if_split [THEN iffD2]) simp

text \<open>A \<open>NaN\<close> argument makes \<open>t63\<close> a \<open>NaN\<close>, so \<open>in_ellipse\<close> holds of numbers only.\<close>

lemma ellipse_t63_NaN_args [simp]:
  "ellipse_t63 NaN delta0 alpha1 delta01 d0 ar PA0 = NaN"
  "ellipse_t63 alpha NaN alpha1 delta01 d0 ar PA0 = NaN"
  "ellipse_t63 alpha delta0 NaN delta01 d0 ar PA0 = NaN"
  "ellipse_t63 alpha delta0 alpha1 NaN d0 ar PA0 = NaN"
  "ellipse_t63 alpha delta0 alpha1 delta01 NaN ar PA0 = NaN"
  "ellipse_t63 alpha delta0 alpha1 delta01 d0 NaN PA0 = NaN"
  "ellipse_t63 alpha delta0 alpha1 delta01 d0 ar NaN = NaN"
  by (simp_all add: ellipse_t63_def Let_def)

lemma in_ellipse_numbers:
  assumes "in_ellipse alpha delta0 alpha1 delta01 d0 ar PA0"
  obtains x1 x2 x3 x4 x5 x6 x7 where "alpha = Num x1" "delta0 = Num x2" "alpha1 = Num x3"
    "delta01 = Num x4" "d0 = Num x5" "ar = Num x6" "PA0 = Num x7"
proof -
  have t: "Num 0 < ellipse_t63 alpha delta0 alpha1 delta01 d0 ar PA0"
    using assms by (simp add: in_ellipse_decides)
  have "alpha \<noteq> NaN" "delta0 \<noteq> NaN" "alpha1 \<noteq> NaN" "delta01 \<noteq> NaN" "d0 \<noteq> NaN"
    "ar \<noteq> NaN" "PA0 \<noteq> NaN"
    using t by auto
  then show thesis
    using that
    by (cases alpha; cases delta0; cases alpha1; cases delta01; cases d0; cases ar; cases PA0) auto
qed

lemma hemisphere_proxy_Num:
  "hemisphere_proxy (Num alpha) (Num delta0) (Num alpha1) (Num delta01) =
     Num (cos_sep alpha delta0 alpha1 delta01)"
  by (simp add: hemisphere_proxy_def cos_sep_def rad_def DEGRA_Num Let_def)

lemma ellipse_t63_Num:
  "ellipse_t63 (Num alpha) (Num delta0) (Num alpha1) (Num delta01) (Num d0) (Num ar) (Num PA0) =
     (if 1 - ar * ar < 0 then NaN
      else Num (t63_poly (cos (rad (alpha1 - alpha))) (sin (rad (alpha1 - alpha)))
                  (cos (rad delta01)) (sin (rad delta01)) (cos (rad delta0)) (sin (rad delta0))
                  (cos (rad d0)) (sin (rad d0)) (cos (rad PA0)) (sin (rad PA0)) (1 - ar * ar)))"
  by (simp add: ellipse_t63_def t63_poly_def rad_def DEGRA_Num Let_def)

text \<open>The closed form of the polynomial: with \<open>q\<close> the square of the axis ratio, \<open>c\<close> the
  cosine of the separation and \<open>w\<close> the offset across the major axis, it is
  \<open>q (c\<^sup>2 - cos\<^sup>2 d) - (1 - q) w\<^sup>2 cos\<^sup>2 d\<close>.\<close>

lemma t63_poly_closed:
  fixes t1 t22 t3 t32 t6 t26 t9 t55 t13 t24 q :: real
  assumes "t22 * t22 = 1 - t1 * t1" "t32 * t32 = 1 - t3 * t3" "t26 * t26 = 1 - t6 * t6"
    "t55 * t55 = 1 - t9 * t9" "t24 * t24 = 1 - t13 * t13"
  shows "t63_poly t1 t22 t3 t32 t6 t26 t9 t55 t13 t24 (1 - q) =
     q * ((t3 * t6 * t1 + t32 * t26)\<^sup>2 - t9 * t9)
     - (1 - q) * (t3 * t22 * t13 - (t6 * t32 - t26 * t3 * t1) * t24)\<^sup>2 * (t9 * t9)"
  using assms unfolding t63_poly_def Let_def
  by algebra

lemma ellipse_t63_closed:
  assumes "ar * ar \<le> 1"
  shows "ellipse_t63 (Num alpha) (Num delta0) (Num alpha1) (Num delta01) (Num d0) (Num ar) (Num PA0) =
     Num (ar * ar * ((cos_sep alpha delta0 alpha1 delta01)\<^sup>2 - cos (rad d0) * cos (rad d0))
          - (1 - ar * ar) * (cross_offset alpha delta0 alpha1 delta01 PA0)\<^sup>2
            * (cos (rad d0) * cos (rad d0)))"
  using assms
  unfolding ellipse_t63_Num cos_sep_def cross_offset_def
  by (simp add: t63_poly_closed [OF sin_sq sin_sq sin_sq sin_sq sin_sq])

lemma ellipse_t63_nan:
  assumes "1 < ar * ar"
  shows "ellipse_t63 (Num alpha) (Num delta0) (Num alpha1) (Num delta01) (Num d0) (Num ar) (Num PA0) = NaN"
  using assms by (simp add: ellipse_t63_Num)

lemma in_ellipse_Num:
  "in_ellipse (Num alpha) (Num delta0) (Num alpha1) (Num delta01) (Num d0) (Num ar) (Num PA0) =
     (0 \<le> cos_sep alpha delta0 alpha1 delta01 \<and> ar * ar \<le> 1
      \<and> 0 < ar * ar * ((cos_sep alpha delta0 alpha1 delta01)\<^sup>2 - cos (rad d0) * cos (rad d0))
            - (1 - ar * ar) * (cross_offset alpha delta0 alpha1 delta01 PA0)\<^sup>2
              * (cos (rad d0) * cos (rad d0)))"
proof (cases "ar * ar \<le> 1")
  case True
  then show ?thesis
    by (simp add: in_ellipse_decides hemisphere_proxy_Num ellipse_t63_closed not_less)
next
  case False
  then show ?thesis
    by (simp add: in_ellipse_decides hemisphere_proxy_Num ellipse_t63_nan)
qed

subsection \<open>The point at the centre\<close>

lemma cos_sep_same: "cos_sep alpha delta0 alpha delta0 = 1"
  using sin_cos_squared_add [of "rad delta0"]
  by (simp add: cos_sep_def rad_def power2_eq_square add.commute)

lemma cross_offset_same: "cross_offset alpha delta0 alpha delta0 PA0 = 0"
  by (simp add: cross_offset_def rad_def)

lemma in_ellipse_centre:
  "in_ellipse (Num alpha) (Num delta0) (Num alpha) (Num delta0) (Num d0) (Num ar) (Num PA0) =
     (ar * ar \<le> 1 \<and> ar \<noteq> 0 \<and> sin (rad d0) \<noteq> 0)"
proof -
  have "ar * ar * (1 - cos (rad d0) * cos (rad d0)) = (ar * sin (rad d0))\<^sup>2"
    by (simp add: sin_sq [symmetric] power2_eq_square)
  then show ?thesis
    by (simp add: in_ellipse_Num cos_sep_same cross_offset_same)
qed

lemma sin_rad_pos: "0 < d0 \<Longrightarrow> d0 < 180 \<Longrightarrow> 0 < sin (rad d0)"
  by (rule sin_gt_zero) (simp_all add: rad_def)

subsection \<open>The distance is the arc cosine of the separation's cosine\<close>

lemma sep_sq:
  fixes c1 s1 c2 s2 cd sd :: real
  assumes "s1 * s1 = 1 - c1 * c1" "s2 * s2 = 1 - c2 * c2" "sd * sd = 1 - cd * cd"
  shows "(c2 * sd) * (c2 * sd) + (c1 * s2 - s1 * c2 * cd) * (c1 * s2 - s1 * c2 * cd)
         = 1 - (s1 * s2 + c1 * c2 * cd)\<^sup>2"
  using assms by algebra

lemma arctan2_arccos:
  assumes "c\<^sup>2 \<le> 1"
  shows "arctan2 (sqrt (1 - c\<^sup>2)) c = arccos c"
proof -
  let ?s = "sqrt (1 - c\<^sup>2)"
  have s0: "0 \<le> ?s" using assms by simp
  have ss: "?s\<^sup>2 = 1 - c\<^sup>2" using assms by simp
  consider "0 < c" | "c < 0" | "c = 0" by linarith
  then have "0 \<le> arctan2 ?s c \<and> arctan2 ?s c \<le> pi \<and> cos (arctan2 ?s c) = c"
  proof cases
    case 1
    have "1 + (?s / c)\<^sup>2 = 1 / c\<^sup>2"
      using 1 ss by (simp add: field_simps)
    then have "cos (arctan (?s / c)) = c"
      using 1 by (simp add: cos_arctan real_sqrt_divide)
    moreover have "0 \<le> arctan (?s / c)" using 1 s0 by simp
    moreover have "arctan (?s / c) \<le> pi" using arctan_ubound [of "?s / c"] pi_gt_zero by linarith
    ultimately show ?thesis using 1 by (simp add: arctan2_def)
  next
    case 2
    have "1 + (?s / c)\<^sup>2 = 1 / c\<^sup>2"
      using 2 ss by (simp add: field_simps)
    then have cs: "cos (arctan (?s / c)) = - c"
      using 2 by (simp add: cos_arctan real_sqrt_divide)
    have "?s / c \<le> 0"
      using 2 s0 by (simp add: divide_nonneg_neg)
    then have up: "arctan (?s / c) \<le> 0"
      by simp
    have lo: "- (pi / 2) < arctan (?s / c)" by (rule arctan_lbound)
    have "0 \<le> arctan (?s / c) + pi" using lo pi_gt_zero by linarith
    moreover have "arctan (?s / c) + pi \<le> pi" using up by linarith
    moreover have "cos (arctan (?s / c) + pi) = c" using cs by simp
    ultimately show ?thesis using 2 s0 by (simp add: arctan2_def)
  next
    case 3
    then show ?thesis by (simp add: arctan2_def)
  qed
  then show ?thesis using arccos_unique [of "arctan2 ?s c" c] by simp
qed

lemma cos_sep_sq_le: "(cos_sep alpha delta0 alpha1 delta01)\<^sup>2 \<le> 1"
proof -
  have "0 \<le> (cos (rad delta01) * sin (rad (alpha1 - alpha))) * (cos (rad delta01) * sin (rad (alpha1 - alpha)))
        + (cos (rad delta0) * sin (rad delta01) - sin (rad delta0) * cos (rad delta01) * cos (rad (alpha1 - alpha)))
          * (cos (rad delta0) * sin (rad delta01) - sin (rad delta0) * cos (rad delta01) * cos (rad (alpha1 - alpha)))"
    by simp
  also have "\<dots> = 1 - (sin (rad delta0) * sin (rad delta01)
                       + cos (rad delta0) * cos (rad delta01) * cos (rad (alpha1 - alpha)))\<^sup>2"
    by (rule sep_sq [OF sin_sq sin_sq sin_sq])
  finally show ?thesis by (simp add: cos_sep_def algebra_simps)
qed

lemma cos_sep_sym: "cos_sep ra2 dec2 ra1 dec1 = cos_sep ra1 dec1 ra2 dec2"
proof -
  have "rad (ra1 - ra2) = - rad (ra2 - ra1)"
    unfolding rad_def by (simp only: minus_mult_left minus_diff_eq)
  then show ?thesis by (simp add: cos_sep_def algebra_simps)
qed

lemma great_circle_distance_Num:
  "great_circle_distance (Num ra1) (Num dec1) (Num ra2) (Num dec2) =
     Num (arccos (cos_sep ra1 dec1 ra2 dec2) * 180 / pi)"
proof -
  define dl where "dl = \<bar>rad ra2 - rad ra1\<bar>"
  define c where "c = sin (rad dec1) * sin (rad dec2) + cos (rad dec1) * cos (rad dec2) * cos dl"
  define y where "y = cos (rad dec2) * sin dl * (cos (rad dec2) * sin dl)
      + (cos (rad dec1) * sin (rad dec2) - sin (rad dec1) * cos (rad dec2) * cos dl)
        * (cos (rad dec1) * sin (rad dec2) - sin (rad dec1) * cos (rad dec2) * cos dl)"
  have "cos dl = cos (rad ra2 - rad ra1)" by (simp add: dl_def)
  also have "rad ra2 - rad ra1 = rad (ra2 - ra1)" by (simp add: rad_def left_diff_distrib)
  finally have c: "c = cos_sep ra1 dec1 ra2 dec2" by (simp add: c_def cos_sep_def algebra_simps)
  have y: "y = 1 - c\<^sup>2"
    unfolding y_def c_def by (rule sep_sq [OF sin_sq sin_sq sin_sq])
  have c1: "c\<^sup>2 \<le> 1" unfolding c by (rule cos_sep_sq_le)
  have "great_circle_distance (Num ra1) (Num dec1) (Num ra2) (Num dec2) =
      np_arctan2 (np_sqrt (Num y)) (Num c) * Num 180 / np_pi"
    unfolding great_circle_distance_def Let_def DEGRA_Num pow2_def y_def c_def dl_def rad_def
    by (simp only: times_fval.simps minus_fval.simps plus_fval.simps np_cos.simps np_sin.simps
        np_abs.simps)
  also have "\<dots> = Num (arctan2 (sqrt (1 - c\<^sup>2)) c * 180 / pi)"
    using c1 by (simp add: y np_pi_def)
  finally show ?thesis
    using c1 by (simp add: arctan2_arccos c)
qed

lemma great_circle_distance_NaN [simp]:
  "great_circle_distance NaN dec1 ra2 dec2 = NaN"
  "great_circle_distance ra1 NaN ra2 dec2 = NaN"
  "great_circle_distance ra1 dec1 NaN dec2 = NaN"
  "great_circle_distance ra1 dec1 ra2 NaN = NaN"
  by (simp_all add: great_circle_distance_def Let_def pow2_def)

lemma cos_sq_antimono:
  assumes "0 \<le> d1" "d1 \<le> d2" "d2 \<le> 90"
  shows "cos (rad d2) * cos (rad d2) \<le> cos (rad d1) * cos (rad d1)"
proof -
  have r: "0 \<le> rad d1" "rad d1 \<le> rad d2" "rad d2 \<le> pi / 2"
    using assms by (simp_all add: rad_def)
  have "cos (rad d2) \<le> cos (rad d1)"
    using r pi_gt_zero by (intro cos_monotone_0_pi_le) linarith+
  moreover have "0 \<le> cos (rad d2)"
    using r by (intro cos_ge_zero) linarith+
  ultimately show ?thesis by (simp add: mult_mono)
qed


subsection \<open>The early return\<close>



subsection \<open>The decision on \<open>t63\<close>\<close>

text \<open>
  C3, as the specification words it, does not hold: \<open>in_ellipse\<close> does not return true
  exactly when \<open>t63 > 0\<close>. For the point opposite the centre of a circle of radius 90
  degrees the polynomial is positive, and the early return rejects the point.
\<close>

theorem t63_positive_but_rejected:
  "Num 0 < ellipse_t63 (Num 180) (Num 0) (Num 0) (Num 0) (Num 90) (Num 1) (Num 0)
   \<and> \<not> in_ellipse (Num 180) (Num 0) (Num 0) (Num 0) (Num 90) (Num 1) (Num 0)"
  by (simp add: ellipse_t63_closed in_ellipse_Num cos_sep_def rad_def)

text \<open>
  C3, amended: \<open>in_ellipse\<close> returns true exactly when the value tested by the early
  return is not negative and \<open>t63\<close> is strictly greater than zero; a point for which
  \<open>t63\<close> is exactly zero is not inside.
\<close>

theorem in_ellipse_iff_t63_positive:
  "in_ellipse alpha delta0 alpha1 delta01 d0 axis_ratio PA0 =
     (\<not> hemisphere_proxy alpha delta0 alpha1 delta01 < Num 0
      \<and> Num 0 < ellipse_t63 alpha delta0 alpha1 delta01 d0 axis_ratio PA0)
   \<and> (ellipse_t63 alpha delta0 alpha1 delta01 d0 axis_ratio PA0 = Num 0
        \<longrightarrow> \<not> in_ellipse alpha delta0 alpha1 delta01 d0 axis_ratio PA0)"
  by (simp add: in_ellipse_decides)

theorem in_ellipse_iff_t63_positive_witness:
  "ellipse_t63 (Num 0) (Num 0) (Num 0) (Num 0) (Num 0) (Num 1) (Num 0) = Num 0
   \<and> \<not> in_ellipse (Num 0) (Num 0) (Num 0) (Num 0) (Num 0) (Num 1) (Num 0)"
proof -
  have z: "ellipse_t63 (Num 0) (Num 0) (Num 0) (Num 0) (Num 0) (Num 1) (Num 0) = Num 0"
    by (simp add: ellipse_t63_closed cos_sep_same rad_def)
  with in_ellipse_iff_t63_positive [of "Num 0" "Num 0" "Num 0" "Num 0" "Num 0" "Num 1" "Num 0"]
  show ?thesis by blast
qed

subsection \<open>The margin\<close>




subsection \<open>The formulas in exact arithmetic\<close>

text \<open>
  The lemmas of this subsection are about the two formulas evaluated without rounding,
  as the model evaluates them. The program evaluates them in 64-bit floating point,
  where the sign of \<open>t63\<close> within rounding of zero, the last digits of a distance and the
  value of \<open>sin\<close> at 180 degrees differ from the exact ones; so these lemmas describe
  the geometry the formulas encode, and are not statements about what the program
  returns at every input.

  In exact arithmetic \<open>t63\<close> does not decrease as the scaled axis grows up to 90
  degrees, the distance is symmetric in its two points, a point farther from the
  centre than the radius of a circle is outside it, and the centre is inside every
  ellipse with a scaled axis strictly between 0 and 180 degrees.
\<close>

lemma t63_not_lower_up_to_90_exact:
  assumes "0 \<le> d1" "d1 \<le> d2" "d2 \<le> 90" "ar * ar \<le> 1"
  shows "ellipse_t63 (Num alpha) (Num delta0) (Num alpha1) (Num delta01) (Num d1) (Num ar) (Num PA0)
         \<le> ellipse_t63 (Num alpha) (Num delta0) (Num alpha1) (Num delta01) (Num d2) (Num ar) (Num PA0)"
proof -
  define c where "c = cos_sep alpha delta0 alpha1 delta01"
  define w where "w = cross_offset alpha delta0 alpha1 delta01 PA0"
  define k1 where "k1 = cos (rad d1) * cos (rad d1)"
  define k2 where "k2 = cos (rad d2) * cos (rad d2)"
  define q where "q = ar * ar"
  have k: "k2 \<le> k1"
    unfolding k1_def k2_def using assms(1-3) by (rule cos_sq_antimono)
  have "0 \<le> q + (1 - q) * w\<^sup>2" using assms(4) by (simp add: q_def)
  then have "(q + (1 - q) * w\<^sup>2) * k2 \<le> (q + (1 - q) * w\<^sup>2) * k1"
    using k by (rule mult_left_mono [rotated])
  then have "q * (c\<^sup>2 - k1) - (1 - q) * w\<^sup>2 * k1 \<le> q * (c\<^sup>2 - k2) - (1 - q) * w\<^sup>2 * k2"
    by (simp add: algebra_simps)
  then show ?thesis
    using assms(4) unfolding c_def w_def k1_def k2_def q_def by (simp add: ellipse_t63_closed)
qed

lemma great_circle_distance_symmetric_exact:
  "great_circle_distance ra1 dec1 ra2 dec2 = great_circle_distance ra2 dec2 ra1 dec1"
  by (cases ra1; cases dec1; cases ra2; cases dec2)
    (simp_all add: great_circle_distance_Num cos_sep_sym)

lemma outside_circle_rejected_exact:
  assumes "0 \<le> m * a"
    and "Num (m * a) < great_circle_distance (Num ra) (Num dec) (Num ra1) (Num dec1)"
  shows "\<not> in_ellipse (Num ra) (Num dec) (Num ra1) (Num dec1) (Num m * Num a) (Num 1) PA0"
proof
  assume inside: "in_ellipse (Num ra) (Num dec) (Num ra1) (Num dec1) (Num m * Num a) (Num 1) PA0"
  then obtain pa where pa: "PA0 = Num pa" by (rule in_ellipse_numbers)
  let ?c = "cos_sep ra dec ra1 dec1"
  have c0: "0 \<le> ?c" and pos: "cos (rad (m * a)) * cos (rad (m * a)) < ?c\<^sup>2"
    using inside by (simp_all add: pa in_ellipse_Num)
  have "\<bar>?c\<bar> \<le> 1" using cos_sep_sq_le [of ra dec ra1 dec1] by (simp add: abs_square_le_1)
  then have c1: "?c \<le> 1" by simp
  have "m * a < arccos ?c * 180 / pi"
    using assms(2) by (simp add: great_circle_distance_Num)
  then have lt: "rad (m * a) < arccos ?c"
    using pi_gt_zero by (simp add: rad_def field_simps)
  have r0: "0 \<le> rad (m * a)" using assms(1) by (simp add: rad_def)
  have "arccos ?c \<le> pi" using c0 c1 by (simp add: arccos_ubound)
  then have "cos (arccos ?c) < cos (rad (m * a))"
    using lt r0 by (simp add: cos_monotone_0_pi)
  then have "?c < cos (rad (m * a))" using c0 c1 by simp
  then have "?c\<^sup>2 < cos (rad (m * a)) * cos (rad (m * a))"
    using c0 by (simp add: power2_eq_square mult_strict_mono')
  with pos show False by simp
qed

lemma centre_inside_exact:
  assumes "0 < d0" "d0 < 180" "0 < b2a" "b2a \<le> 1"
  shows "in_ellipse (Num ra) (Num dec) (Num ra) (Num dec) (Num d0) (Num b2a) (Num pa)"
proof -
  have "b2a * b2a \<le> 1" using assms(3,4) by (simp add: mult_le_one)
  moreover have "0 < sin (rad d0)" using assms(1,2) by (rule sin_rad_pos)
  ultimately show ?thesis using assms(3) by (simp add: in_ellipse_centre)
qed

section \<open>Properties of the matching loop\<close>

subsection \<open>One iteration\<close>

lemma match_step_objs: "objs (fst (match_step ra dec m s r)) = objs (fst s)"
  by (simp add: match_step_def Let_def)

lemma match_step_matches:
  "snd (match_step ra dec m s r) =
     (if in_galaxy ra dec m (objs (fst s) r) then snd s @ [r] else snd s)"
  by (simp add: match_step_def Let_def)

lemma match_step_nested:
  "nested (fst (match_step ra dec m s r)) =
     (if in_galaxy ra dec m (objs (fst s) r)
      then (nested (fst s))
             (g_coordinates (objs (fst s) r) :=
                (nested (fst s) (g_coordinates (objs (fst s) r)))
                  (''distance_arcsec'' \<mapsto>
                     CNum (round2 (great_circle_distance ra dec (g_ra (objs (fst s) r))
                                     (g_dec (objs (fst s) r)) * Num 3600))))
      else nested (fst s))"
  by (simp add: match_step_def Let_def)

lemma substituted:
  "(if v < Num (- 990) \<or> np_isnan v then Num dflt else v) = with_default dflt v"
  by (cases v) (simp_all add: with_default_def missing_def)

lemma in_galaxy_with_default:
  "in_galaxy ra dec m g =
     in_ellipse ra dec (g_ra g) (g_dec g) (m * with_default 0.0265889 (g_a g))
       (with_default 0.61 (g_b2a g)) (with_default 86 (g_pa g))"
  unfolding in_galaxy_def Let_def substituted by (rule refl)

subsection \<open>The loop\<close>

lemma matching_loop_Nil: "matching_loop ra dec m h [] = (h, [])"
  by (simp add: matching_loop_def)

lemma matching_loop_snoc:
  "matching_loop ra dec m h (gs @ [g]) = match_step ra dec m (matching_loop ra dec m h gs) g"
  by (simp add: matching_loop_def)

lemma loop_objs: "objs (fst (matching_loop ra dec m h gs)) = objs h"
  by (induction gs rule: rev_induct)
    (simp_all add: matching_loop_Nil matching_loop_snoc match_step_objs)

lemma loop_matches:
  "snd (matching_loop ra dec m h gs) = filter (\<lambda>r. in_galaxy ra dec m (objs h r)) gs"
  by (induction gs rule: rev_induct)
    (simp_all add: matching_loop_Nil matching_loop_snoc match_step_matches loop_objs)

lemma loop_nested_other_keys:
  "k \<noteq> ''distance_arcsec'' \<Longrightarrow> nested (fst (matching_loop ra dec m h gs)) p k = nested h p k"
  by (induction gs rule: rev_induct)
    (auto simp add: matching_loop_Nil matching_loop_snoc match_step_nested loop_objs)

lemma loop_nested_untouched:
  "p \<notin> (\<lambda>r. g_coordinates (objs h r)) ` set (snd (matching_loop ra dec m h gs))
   \<Longrightarrow> nested (fst (matching_loop ra dec m h gs)) p = nested h p"
  by (induction gs rule: rev_induct)
    (auto simp add: matching_loop_Nil matching_loop_snoc match_step_nested match_step_matches
      loop_objs split: if_splits)

lemma loop_distance:
  "r \<in> set (snd (matching_loop ra dec m h gs)) \<Longrightarrow>
   \<exists>r' \<in> set (snd (matching_loop ra dec m h gs)).
      g_coordinates (objs h r') = g_coordinates (objs h r)
      \<and> nested (fst (matching_loop ra dec m h gs)) (g_coordinates (objs h r)) ''distance_arcsec''
          = Some (CNum (round2 (great_circle_distance ra dec (g_ra (objs h r')) (g_dec (objs h r'))
                                * Num 3600)))"
proof (induction gs rule: rev_induct)
  case Nil
  then show ?case by (simp add: matching_loop_Nil)
next
  case (snoc g gs)
  show ?case
  proof (cases "in_galaxy ra dec m (objs h g)")
    case False
    with snoc show ?thesis
      by (simp add: matching_loop_snoc match_step_nested match_step_matches loop_objs)
  next
    case True
    show ?thesis
    proof (cases "g_coordinates (objs h g) = g_coordinates (objs h r)")
      case same: True
      with True show ?thesis
        by (auto simp add: matching_loop_snoc match_step_nested match_step_matches loop_objs
            intro!: bexI [of _ g])
    next
      case other: False
      with True snoc.prems have "r \<in> set (snd (matching_loop ra dec m h gs))"
        by (auto simp add: matching_loop_snoc match_step_matches loop_objs)
      from snoc.IH [OF this] other True show ?thesis
        by (auto simp add: matching_loop_snoc match_step_nested match_step_matches loop_objs)
    qed
  qed
qed

subsection \<open>The sample store\<close>

text \<open>The event at \<open>(107, 31)\<close>, margin 3: the galaxy at reference 0 has its centre
  there and matches with the default shape; the galaxy at the other references lies
  opposite and does not.\<close>

lemma sample_inside: "in_galaxy (Num 107) (Num 31) (Num 3) (objs sample_heap 0)"
proof -
  have "0 < sin (rad (3 * 0.0265889))" by (rule sin_rad_pos) simp_all
  then show ?thesis
    by (simp add: in_galaxy_with_default sample_heap_def sample_galaxy_def with_default_def
        missing_def in_ellipse_centre)
qed

lemma opposite_outside: "r \<noteq> 0 \<Longrightarrow> \<not> in_galaxy (Num 107) (Num 31) (Num 3) (objs sample_heap r)"
proof -
  have "rad (- 31) = - rad 31" by (simp add: rad_def)
  moreover have "rad (287 - 107) = pi" by (simp add: rad_def)
  ultimately have "cos_sep 107 31 287 (- 31) = - 1"
    using sin_cos_squared_add [of "rad 31"]
    by (simp add: cos_sep_def power2_eq_square)
  then show "r \<noteq> 0 \<Longrightarrow> ?thesis"
    by (simp add: in_galaxy_with_default sample_heap_def opposite_galaxy_def with_default_def
        missing_def in_ellipse_Num)
qed

lemma sample_distance:
  "round2 (great_circle_distance (Num 107) (Num 31) (g_ra (objs sample_heap 0))
             (g_dec (objs sample_heap 0)) * Num 3600) = Num 0"
  by (simp add: sample_heap_def sample_galaxy_def great_circle_distance_Num cos_sep_same
      round_half_even_def)

lemma sample_matches: "snd (matching_loop (Num 107) (Num 31) (Num 3) sample_heap [0, 1]) = [0]"
  using sample_inside opposite_outside [of 1] by (simp add: loop_matches)

subsection \<open>Default substitution\<close>

text \<open>
  C1: the test of a candidate is \<open>in_ellipse\<close> on the position of the event, the centre
  of the galaxy, and the three shape fields, each replaced on its own by its default
  (\<open>a = 0.0265889\<close>, \<open>b2a = 0.61\<close>, \<open>pa = 86\<close>) when it is below \<open>-990\<close> or not a number
  and passed unchanged otherwise, with \<open>a\<close> scaled by the margin; the iteration keeps
  the candidate exactly when that call returns true. A candidate with \<open>a = -999\<close>,
  \<open>b2a = NaN\<close>, \<open>pa = -999\<close> is tested exactly as one with the three defaults.
\<close>

theorem default_substitution:
  "in_galaxy ra dec m g =
     in_ellipse ra dec (g_ra g) (g_dec g) (m * with_default 0.0265889 (g_a g))
       (with_default 0.61 (g_b2a g)) (with_default 86 (g_pa g))
   \<and> snd (match_step ra dec m (h, ms) r) =
       (if in_ellipse ra dec (g_ra (objs h r)) (g_dec (objs h r))
             (m * with_default 0.0265889 (g_a (objs h r)))
             (with_default 0.61 (g_b2a (objs h r))) (with_default 86 (g_pa (objs h r)))
        then ms @ [r] else ms)
   \<and> in_galaxy ra dec m (g\<lparr>g_a := Num (- 999), g_b2a := NaN, g_pa := Num (- 999)\<rparr>)
     = in_galaxy ra dec m (g\<lparr>g_a := Num 0.0265889, g_b2a := Num 0.61, g_pa := Num 86\<rparr>)"
  by (simp add: match_step_matches in_galaxy_with_default with_default_def missing_def)

subsection \<open>A stable filter\<close>

text \<open>
  C9: the list of matches is the list of candidates filtered by the test: the
  candidates that pass, each as often as it occurs, in the order of the input.
\<close>

theorem matching_loop_stable_filter:
  "snd (matching_loop ra dec m h galaxies) =
     filter (\<lambda>r. in_galaxy ra dec m (objs h r)) galaxies"
  by (rule loop_matches)

subsection \<open>What the loop changes\<close>

text \<open>
  C5, as the specification words it, does not hold: a match is not a copy. The loop
  appends the reference it took from the input and assigns \<open>distance_arcsec\<close> in the
  nested dictionary of that very galaxy. In the sample store the candidate at
  reference 0 has no \<open>distance_arcsec\<close> before the loop and has one after it.
\<close>

theorem input_record_mutated:
  "snd (matching_loop (Num 107) (Num 31) (Num 3) sample_heap [0, 1]) = [0]
   \<and> nested sample_heap (g_coordinates (objs sample_heap 0)) ''distance_arcsec'' = None
   \<and> nested (fst (matching_loop (Num 107) (Num 31) (Num 3) sample_heap [0, 1]))
        (g_coordinates (objs sample_heap 0)) ''distance_arcsec'' = Some (CNum (Num 0))"
proof -
  have "0 \<in> set (snd (matching_loop (Num 107) (Num 31) (Num 3) sample_heap [0, 1]))"
    unfolding sample_matches by simp
  from loop_distance [OF this] have
    "nested (fst (matching_loop (Num 107) (Num 31) (Num 3) sample_heap [0, 1]))
        (g_coordinates (objs sample_heap 0)) ''distance_arcsec'' = Some (CNum (Num 0))"
    unfolding sample_matches by (simp add: sample_distance)
  moreover have "nested sample_heap (g_coordinates (objs sample_heap 0)) ''distance_arcsec'' = None"
    by (simp add: sample_heap_def)
  ultimately show ?thesis unfolding sample_matches by simp
qed

text \<open>
  C5, amended: the loop leaves every galaxy dictionary as it was, and each match is one
  of the input references, not a copy. In the nested dictionaries it changes the key
  \<open>distance_arcsec\<close> only, and only in the nested dictionaries of the matches.
\<close>

theorem matching_loop_frame:
  "objs (fst (matching_loop ra dec m h gs)) = objs h
   \<and> set (snd (matching_loop ra dec m h gs)) \<subseteq> set gs
   \<and> (\<forall>p k. k \<noteq> ''distance_arcsec'' \<longrightarrow>
         nested (fst (matching_loop ra dec m h gs)) p k = nested h p k)
   \<and> (\<forall>p. p \<notin> (\<lambda>r. g_coordinates (objs h r)) ` set (snd (matching_loop ra dec m h gs)) \<longrightarrow>
         nested (fst (matching_loop ra dec m h gs)) p = nested h p)"
  by (simp add: loop_objs loop_nested_other_keys loop_nested_untouched) (simp add: loop_matches)

theorem matching_loop_frame_witness:
  "objs (fst (matching_loop (Num 107) (Num 31) (Num 3) sample_heap [0, 1])) = objs sample_heap
   \<and> nested (fst (matching_loop (Num 107) (Num 31) (Num 3) sample_heap [0, 1])) 0 ''radec_str''
       = nested sample_heap 0 ''radec_str''
   \<and> nested (fst (matching_loop (Num 107) (Num 31) (Num 3) sample_heap [0, 1])) 1
       = nested sample_heap 1"
proof -
  note frame = matching_loop_frame [of "Num 107" "Num 31" "Num 3" sample_heap "[0, 1]"]
  have top: "objs (fst (matching_loop (Num 107) (Num 31) (Num 3) sample_heap [0, 1]))
      = objs sample_heap"
    by (rule frame [THEN conjunct1])
  have keys: "nested (fst (matching_loop (Num 107) (Num 31) (Num 3) sample_heap [0, 1])) 0
      ''radec_str'' = nested sample_heap 0 ''radec_str''"
    by (rule frame [THEN conjunct2, THEN conjunct2, THEN conjunct1, rule_format]) simp
  have "(1::nat) \<notin> (\<lambda>r. g_coordinates (objs sample_heap r))
          ` set (snd (matching_loop (Num 107) (Num 31) (Num 3) sample_heap [0, 1]))"
    unfolding sample_matches by (simp add: sample_heap_def sample_galaxy_def)
  then have other: "nested (fst (matching_loop (Num 107) (Num 31) (Num 3) sample_heap [0, 1])) 1
      = nested sample_heap 1"
    by (rule frame [THEN conjunct2, THEN conjunct2, THEN conjunct2, rule_format])
  from top keys other show ?thesis by (intro conjI)
qed

subsection \<open>The raw shape values stay\<close>

text \<open>
  C10: the defaults are used for the test and are never written back. Every match is
  the galaxy as it was before the loop, missing shape values included; it passed
  \<open>in_ellipse\<close> with the defaults in their place; and its nested dictionary holds under
  \<open>distance_arcsec\<close> the rounded distance of a match with this nested dictionary (its
  own, unless two matches share one).
\<close>

theorem raw_shape_values_kept:
  "\<forall>r \<in> set (snd (matching_loop ra dec m h gs)).
      objs (fst (matching_loop ra dec m h gs)) r = objs h r
      \<and> in_ellipse ra dec (g_ra (objs h r)) (g_dec (objs h r))
          (m * with_default 0.0265889 (g_a (objs h r)))
          (with_default 0.61 (g_b2a (objs h r))) (with_default 86 (g_pa (objs h r)))
      \<and> (\<exists>r' \<in> set (snd (matching_loop ra dec m h gs)).
            g_coordinates (objs h r') = g_coordinates (objs h r)
            \<and> nested (fst (matching_loop ra dec m h gs)) (g_coordinates (objs h r))
                 ''distance_arcsec''
                = Some (CNum (round2 (great_circle_distance ra dec (g_ra (objs h r'))
                                        (g_dec (objs h r')) * Num 3600))))"
proof
  fix r
  assume r: "r \<in> set (snd (matching_loop ra dec m h gs))"
  then have "in_galaxy ra dec m (objs h r)" by (simp add: loop_matches)
  then have "in_ellipse ra dec (g_ra (objs h r)) (g_dec (objs h r))
          (m * with_default 0.0265889 (g_a (objs h r)))
          (with_default 0.61 (g_b2a (objs h r))) (with_default 86 (g_pa (objs h r)))"
    by (simp add: in_galaxy_with_default)
  with loop_distance [OF r] show "objs (fst (matching_loop ra dec m h gs)) r = objs h r
      \<and> in_ellipse ra dec (g_ra (objs h r)) (g_dec (objs h r))
          (m * with_default 0.0265889 (g_a (objs h r)))
          (with_default 0.61 (g_b2a (objs h r))) (with_default 86 (g_pa (objs h r)))
      \<and> (\<exists>r' \<in> set (snd (matching_loop ra dec m h gs)).
            g_coordinates (objs h r') = g_coordinates (objs h r)
            \<and> nested (fst (matching_loop ra dec m h gs)) (g_coordinates (objs h r))
                 ''distance_arcsec''
                = Some (CNum (round2 (great_circle_distance ra dec (g_ra (objs h r'))
                                        (g_dec (objs h r')) * Num 3600))))"
    by (simp add: loop_objs)
qed

theorem raw_shape_values_kept_witness:
  "snd (matching_loop (Num 107) (Num 31) (Num 3) sample_heap [0, 1]) = [0]
   \<and> g_a (objs (fst (matching_loop (Num 107) (Num 31) (Num 3) sample_heap [0, 1])) 0) = NaN
   \<and> g_b2a (objs (fst (matching_loop (Num 107) (Num 31) (Num 3) sample_heap [0, 1])) 0) = NaN
   \<and> g_pa (objs (fst (matching_loop (Num 107) (Num 31) (Num 3) sample_heap [0, 1])) 0) = Num (- 999)
   \<and> in_ellipse (Num 107) (Num 31) (Num 107) (Num 31) (Num 3 * Num 0.0265889) (Num 0.61) (Num 86)
   \<and> nested (fst (matching_loop (Num 107) (Num 31) (Num 3) sample_heap [0, 1])) 0 ''distance_arcsec''
       = Some (CNum (Num 0))"
proof -
  have raw: "objs sample_heap 0 = sample_galaxy" by (simp add: sample_heap_def)
  have "0 \<in> set (snd (matching_loop (Num 107) (Num 31) (Num 3) sample_heap [0, 1]))"
    unfolding sample_matches by simp
  with raw_shape_values_kept [of "Num 107" "Num 31" "Num 3" sample_heap "[0, 1]"]
  have "objs (fst (matching_loop (Num 107) (Num 31) (Num 3) sample_heap [0, 1])) 0 = sample_galaxy
      \<and> in_ellipse (Num 107) (Num 31) (g_ra sample_galaxy) (g_dec sample_galaxy)
          (Num 3 * with_default 0.0265889 (g_a sample_galaxy))
          (with_default 0.61 (g_b2a sample_galaxy)) (with_default 86 (g_pa sample_galaxy))
      \<and> nested (fst (matching_loop (Num 107) (Num 31) (Num 3) sample_heap [0, 1]))
           (g_coordinates sample_galaxy) ''distance_arcsec'' = Some (CNum (Num 0))"
    unfolding sample_matches using sample_distance by (simp add: raw)
  then show ?thesis
    unfolding sample_matches by (simp add: sample_galaxy_def with_default_def missing_def)
qed

end
